theory Spec2Isabelle
  imports Main
begin

section \<open>Python values, exceptions and the built-ins the constructors call\<close>

text \<open>
  The constructors of \<^verbatim>\<open>ndindex.py\<close> receive arbitrary Python objects and do three
  things with them: test \<^verbatim>\<open>x is None\<close>, test \<^verbatim>\<open>x == 0\<close>, and call
  \<^verbatim>\<open>operator.index(x)\<close>. A value is therefore \<^verbatim>\<open>None\<close>, a genuine \<^verbatim>\<open>int\<close>, or
  any other object, of which the model keeps the two answers the code asks for: what its
  \<^verbatim>\<open>__index__\<close> returns (\<open>None\<close> when it has no usable \<^verbatim>\<open>__index__\<close>) and whether
  it compares equal to 0. The two answers are independent of each other: the float
  \<^verbatim>\<open>0.0\<close> is \<open>PObj None True\<close>, a string is \<open>PObj None False\<close>, a numpy integer 7
  is \<open>PObj (Some 7) False\<close>, and an instance of a class whose \<^verbatim>\<open>__index__\<close> returns 0
  and that defines no \<^verbatim>\<open>__eq__\<close> is \<open>PObj (Some 0) False\<close>.
\<close>

datatype pyval = PNone | PInt int | PObj "int option" bool

text \<open>
  The exceptions the code can raise. The specification calls \<^verbatim>\<open>TypeError\<close> from a
  failed coercion BadIndex and the \<^verbatim>\<open>ValueError\<close> of a zero step BadStep.
\<close>

datatype error = TypeError | ValueError | OverflowError | IndexError

text \<open>
  The state of the interpreter as far as the constructors touch it: the objects allocated
  so far, and the arguments of the calls of \<^verbatim>\<open>operator.index\<close> that returned, in the
  order of the calls.
\<close>

datatype cls = Slice_cls | Integer_cls

record ndobj =
  obj_cls :: cls
  args :: "pyval list"

record pystate =
  objs :: "ndobj list"
  coerced :: "pyval list"

type_synonym ref = nat

definition init :: pystate where
  "init = \<lparr>objs = [], coerced = []\<rparr>"

text \<open>The integer that \<^verbatim>\<open>operator.index(x)\<close> returns, when \<open>x\<close> is integer-convertible.\<close>

fun index_value :: "pyval \<Rightarrow> int option" where
  "index_value PNone = None"
| "index_value (PInt i) = Some i"
| "index_value (PObj idx z) = idx"

text \<open>
  \<^verbatim>\<open>operator.index(x)\<close>: TypeError when \<open>x\<close> is not integer-convertible; otherwise the
  call returns the integer, a genuine \<^verbatim>\<open>int\<close>, and is recorded in the state.
\<close>

definition index_op :: "pyval \<Rightarrow> pystate \<Rightarrow> error + (int \<times> pystate)" where
  "index_op x st =
     (case index_value x of
        None \<Rightarrow> Inl TypeError
      | Some i \<Rightarrow> Inr (i, st\<lparr>coerced := coerced st @ [x]\<rparr>))"

text \<open>\<^verbatim>\<open>x == 0\<close> on a Python value, asked of the object itself, before any coercion.\<close>

fun eq_zero :: "pyval \<Rightarrow> bool" where
  "eq_zero (PInt i) = (i = 0)"
| "eq_zero PNone = False"
| "eq_zero (PObj idx z) = z"

text \<open>\<^verbatim>\<open>x is None\<close>.\<close>

fun is_None :: "pyval \<Rightarrow> bool" where
  "is_None PNone = True"
| "is_None (PInt i) = False"
| "is_None (PObj idx z) = False"

subsection \<open>The built-in \<^verbatim>\<open>range\<close>\<close>

text \<open>
  The number of elements of \<^verbatim>\<open>range(start, stop, step)\<close> for a nonzero step, as a
  mathematical integer.
\<close>

definition range_len :: "int \<Rightarrow> int \<Rightarrow> int \<Rightarrow> int" where
  "range_len start stop step =
     (if 0 < step then (if start < stop then (stop - start - 1) div step + 1 else 0)
      else (if stop < start then (start - stop - 1) div (- step) + 1 else 0))"

text \<open>\<^verbatim>\<open>sys.maxsize\<close> of a 64-bit CPython.\<close>

definition sys_maxsize :: int where
  "sys_maxsize = 2 ^ 63 - 1"

text \<open>
  A range object is its three integers. \<^verbatim>\<open>range(start, stop, step)\<close> raises ValueError
  when the step is zero.
\<close>

type_synonym pyrange = "int \<times> int \<times> int"

definition range_new :: "int \<Rightarrow> int \<Rightarrow> int \<Rightarrow> error + pyrange" where
  "range_new start stop step =
     (if step = 0 then Inl ValueError else Inr (start, stop, step))"

text \<open>
  \<^verbatim>\<open>len(r)\<close>: the length has to fit a C \<^verbatim>\<open>ssize_t\<close>, and \<^verbatim>\<open>len\<close> raises
  OverflowError when it does not.
\<close>

fun len_range :: "pyrange \<Rightarrow> error + int" where
  "len_range (start, stop, step) =
     (if sys_maxsize < range_len start stop step then Inl OverflowError
      else Inr (range_len start stop step))"

text \<open>\<^verbatim>\<open>r[0]\<close>: the first element of a non-empty range, IndexError on an empty one.\<close>

fun range_first :: "pyrange \<Rightarrow> error + int" where
  "range_first (start, stop, step) =
     (if 0 < range_len start stop step then Inr start else Inl IndexError)"

section \<open>Objects: \<^verbatim>\<open>NDIndex.__new__\<close>, hashing and equality\<close>

text \<open>
  Every index value is a Python object: an instance of \<^verbatim>\<open>Slice\<close> or \<^verbatim>\<open>Integer\<close> with
  one attribute, the tuple \<^verbatim>\<open>args\<close>. An object is known by its reference, the position
  among the objects of the state at which \<^verbatim>\<open>object.__new__\<close> allocated it.

  \<^verbatim>\<open>NDIndex.__new__(cls, *args)\<close>: allocate a fresh object of the class, store the
  argument tuple in \<^verbatim>\<open>obj.args\<close>, return the object.
\<close>

definition NDIndex_new :: "cls \<Rightarrow> pyval list \<Rightarrow> pystate \<Rightarrow> ref \<times> pystate" where
  "NDIndex_new c as st =
     (length (objs st), st\<lparr>objs := objs st @ [\<lparr>obj_cls = c, args = as\<rparr>]\<rparr>)"

text \<open>
  \<^verbatim>\<open>NDIndex.__hash__\<close>: \<^verbatim>\<open>hash(self.args)\<close>. The hash of a tuple is a built-in of the
  interpreter and is taken as the parameter \<open>H\<close>.
\<close>

definition NDIndex_hash :: "(pyval list \<Rightarrow> int) \<Rightarrow> pystate \<Rightarrow> ref \<Rightarrow> int" where
  "NDIndex_hash H st r = H (args (objs st ! r))"

text \<open>
  \<^verbatim>\<open>a == b\<close>: \<^verbatim>\<open>NDIndex\<close> and its subclasses define no \<^verbatim>\<open>__eq__\<close>, so the comparison
  is the one inherited from \<^verbatim>\<open>object\<close>, which holds only between an object and itself.
\<close>

definition NDIndex_eq :: "ref \<Rightarrow> ref \<Rightarrow> bool" where
  "NDIndex_eq a b = (a = b)"

section \<open>The constructors\<close>

text \<open>\<^verbatim>\<open>Integer.__new__(cls, idx)\<close>: coerce with \<^verbatim>\<open>index\<close>, then allocate with the 1-tuple.\<close>

definition Integer_new :: "pyval \<Rightarrow> pystate \<Rightarrow> error + (ref \<times> pystate)" where
  "Integer_new idx st =
     (case index_op idx st of
        Inl e \<Rightarrow> Inl e
      | Inr (i, st') \<Rightarrow> Inr (NDIndex_new Integer_cls [PInt i] st'))"

text \<open>\<^verbatim>\<open>Integer.raw\<close>: \<^verbatim>\<open>self.args[0]\<close>.\<close>

definition Integer_raw :: "pystate \<Rightarrow> ref \<Rightarrow> pyval" where
  "Integer_raw st r = args (objs st ! r) ! 0"

text \<open>
  \<^verbatim>\<open>if x is not None: x = index(x)\<close>, as the constructor of \<^verbatim>\<open>Slice\<close> does for
  \<^verbatim>\<open>start\<close> and \<^verbatim>\<open>stop\<close>: \<^verbatim>\<open>None\<close> stays, anything else is coerced.
\<close>

definition index_unless_None :: "pyval \<Rightarrow> pystate \<Rightarrow> error + (pyval \<times> pystate)" where
  "index_unless_None x st =
     (if is_None x then Inr (PNone, st)
      else case index_op x st of Inl e \<Rightarrow> Inl e | Inr (i, st') \<Rightarrow> Inr (PInt i, st'))"

text \<open>
  \<^verbatim>\<open>Slice.__new__(cls, start, stop=None, step=None)\<close>, statement by statement: the
  default of the step, the zero-step check on the step as it was passed, the three
  coercions, and, when both bounds are given, the range and the two canonicalisations by
  its length. The range \<^verbatim>\<open>r\<close> is built before \<^verbatim>\<open>start, stop, step\<close> are reassigned,
  so both tests of \<^verbatim>\<open>len(r)\<close> see the coerced arguments.
\<close>

definition Slice_new :: "pyval \<Rightarrow> pyval \<Rightarrow> pyval \<Rightarrow> pystate \<Rightarrow> error + (ref \<times> pystate)" where
  "Slice_new start stop step st =
     (let step = (if is_None step then PInt 1 else step) in
      if eq_zero step then Inl ValueError
      else case index_unless_None start st of Inl e \<Rightarrow> Inl e | Inr (start, st1) \<Rightarrow>
           case index_unless_None stop st1 of Inl e \<Rightarrow> Inl e | Inr (stop, st2) \<Rightarrow>
           case index_op step st2 of Inl e \<Rightarrow> Inl e | Inr (k, st3) \<Rightarrow>
           (case (start, stop) of
              (PInt a, PInt b) \<Rightarrow>
                (case range_new a b k of
                   Inl e \<Rightarrow> Inl e
                 | Inr r \<Rightarrow>
                    (case len_range r of
                       Inl e \<Rightarrow> Inl e
                     | Inr l \<Rightarrow>
                        let as = (if l = 0 \<and> ((0 < k \<and> a \<le> b) \<or> (k < 0 \<and> b \<le> a))
                                  then [PInt 0, PInt 0, PInt 1]
                                  else [PInt a, PInt b, PInt k])
                        in if l = 1
                           then (case range_first r of
                                   Inl e \<Rightarrow> Inl e
                                 | Inr v \<Rightarrow> Integer_new (PInt v) st3)
                           else Inr (NDIndex_new Slice_cls as st3)))
            | _ \<Rightarrow> Inr (NDIndex_new Slice_cls [start, stop, PInt k] st3)))"

text \<open>
  The call \<^verbatim>\<open>Slice(x)\<close> with one positional argument binds it to the first parameter,
  \<^verbatim>\<open>start\<close>; \<^verbatim>\<open>stop\<close> and \<^verbatim>\<open>step\<close> take their default \<^verbatim>\<open>None\<close>.
\<close>

definition Slice_new1 :: "pyval \<Rightarrow> pystate \<Rightarrow> error + (ref \<times> pystate)" where
  "Slice_new1 start st = Slice_new start PNone PNone st"

section \<open>What an index selects on an axis\<close>

text \<open>
  The reference semantics the specification measures the constructors against: the
  positions of an axis of length \<open>n\<close> that a raw slice and a raw integer select. They
  follow the specification's words (section 4.2 for integers, the clamping rules of
  section 4.3 and the glossary's half-open range for slices), not the source.
\<close>

text \<open>
  The elements of the half-open range: \<open>start, start + step, \<dots>\<close>, stopping strictly
  before \<open>stop\<close> in the direction of \<open>step\<close>.
\<close>

definition spec_range :: "int \<Rightarrow> int \<Rightarrow> int \<Rightarrow> int list" where
  "spec_range start stop step =
     map (\<lambda>i. start + int i * step) [0 ..< nat (range_len start stop step)]"

definition spec_clamp :: "int \<Rightarrow> int \<Rightarrow> int \<Rightarrow> int" where
  "spec_clamp x lo hi = max lo (min x hi)"

text \<open>
  A bound of a slice on an axis of length \<open>n\<close>: absent bounds take the default \<open>d\<close>,
  negative ones are normalised by adding \<open>n\<close>, and the result is clamped to \<open>[lo, hi]\<close>.
\<close>

definition spec_bound :: "int \<Rightarrow> int option \<Rightarrow> int \<Rightarrow> int \<Rightarrow> int \<Rightarrow> int" where
  "spec_bound n x d lo hi =
     (case x of
        None \<Rightarrow> d
      | Some v \<Rightarrow> spec_clamp (if v < 0 then v + n else v) lo hi)"

definition spec_slice_positions :: "nat \<Rightarrow> int option \<Rightarrow> int option \<Rightarrow> int \<Rightarrow> int list" where
  "spec_slice_positions n start stop step =
     (if 0 < step
      then spec_range (spec_bound (int n) start 0 0 (int n))
                      (spec_bound (int n) stop (int n) 0 (int n)) step
      else spec_range (spec_bound (int n) start (int n - 1) (- 1) (int n - 1))
                      (spec_bound (int n) stop (- 1) (- 1) (int n - 1)) step)"

text \<open>
  An integer \<open>i\<close> is valid on an axis of length \<open>n\<close> when \<open>-n \<le> i < n\<close> and then
  selects \<open>i\<close>, or \<open>i + n\<close> when it is negative; otherwise it is out of bounds.
\<close>

definition spec_integer_position :: "nat \<Rightarrow> int \<Rightarrow> int option" where
  "spec_integer_position n i =
     (if - int n \<le> i \<and> i < int n then Some (if 0 \<le> i then i else i + int n) else None)"

text \<open>A slice that selects nothing on an axis of any length.\<close>

definition spec_provably_empty :: "int option \<Rightarrow> int option \<Rightarrow> int \<Rightarrow> bool" where
  "spec_provably_empty start stop step = (\<forall>n. spec_slice_positions n start stop step = [])"

text \<open>
  The sign of \<open>stop - start\<close> agrees with the sign of \<open>step\<close>; a difference of zero
  agrees with both directions.
\<close>

definition spec_sign_agrees :: "int \<Rightarrow> int \<Rightarrow> int \<Rightarrow> bool" where
  "spec_sign_agrees start stop step =
     ((0 < step \<and> 0 \<le> stop - start) \<or> (step < 0 \<and> stop - start \<le> 0))"

section \<open>Basic facts about the built-ins\<close>

lemma sys_maxsize_pos: "0 < sys_maxsize"
  by (simp add: sys_maxsize_def)

lemma range_len_same [simp]: "range_len a a k = 0"
  by (simp add: range_len_def)

lemma range_len_eq_0:
  "k \<noteq> 0 \<Longrightarrow> range_len s e k = 0 \<longleftrightarrow> (if 0 < k then e \<le> s else s \<le> e)"
proof -
  have "0 \<le> (e - s - 1) div k" if "0 < k" "s < e"
    using that by (simp add: pos_imp_zdiv_nonneg_iff)
  moreover have "0 \<le> (s - e - 1) div (- k)" if "k < 0" "e < s"
    using that by (simp add: pos_imp_zdiv_nonneg_iff)
  ultimately show "k \<noteq> 0 \<Longrightarrow> ?thesis"
    by (auto simp: range_len_def)
qed

lemma div_eq_0_pos: "0 < (k::int) \<Longrightarrow> 0 \<le> x \<Longrightarrow> x div k = 0 \<longleftrightarrow> x < k"
  by (auto simp: div_pos_pos_trivial zdiv_eq_0_iff)

lemma range_len_eq_1_pos: "0 < k \<Longrightarrow> range_len s e k = 1 \<longleftrightarrow> s < e \<and> e \<le> s + k"
  using div_eq_0_pos [of k "e - s - 1"]
  by (auto simp: range_len_def)

lemma range_len_eq_1_neg: "k < 0 \<Longrightarrow> range_len s e k = 1 \<longleftrightarrow> e < s \<and> s + k \<le> e"
  using div_eq_0_pos [of "- k" "s - e - 1"]
  by (auto simp: range_len_def)

lemma spec_range_empty: "range_len s e k = 0 \<Longrightarrow> spec_range s e k = []"
  by (simp add: spec_range_def)

lemma spec_range_single: "range_len s e k = 1 \<Longrightarrow> spec_range s e k = [s]"
  by (simp add: spec_range_def)

section \<open>The results of the constructors\<close>

lemma NDIndex_new_obj:
  "NDIndex_new c as st = (r, st') \<Longrightarrow>
     obj_cls (objs st' ! r) = c \<and> args (objs st' ! r) = as"
  by (auto simp: NDIndex_new_def)

text \<open>
  The constructor of \<^verbatim>\<open>Slice\<close> on three explicit integers, branch by branch. The three
  arguments are coerced in turn, and the value handed to \<^verbatim>\<open>Integer\<close> once more.
\<close>

lemma Slice_new_ints:
  assumes "k \<noteq> 0"
  shows "Slice_new (PInt a) (PInt b) (PInt k) st =
     (if sys_maxsize < range_len a b k then Inl OverflowError
      else if range_len a b k = 1
           then Inr (NDIndex_new Integer_cls [PInt a]
                  (st\<lparr>coerced := coerced st @ [PInt a, PInt b, PInt k, PInt a]\<rparr>))
      else if range_len a b k = 0 \<and> ((0 < k \<and> a \<le> b) \<or> (k < 0 \<and> b \<le> a))
           then Inr (NDIndex_new Slice_cls [PInt 0, PInt 0, PInt 1]
                  (st\<lparr>coerced := coerced st @ [PInt a, PInt b, PInt k]\<rparr>))
           else Inr (NDIndex_new Slice_cls [PInt a, PInt b, PInt k]
                  (st\<lparr>coerced := coerced st @ [PInt a, PInt b, PInt k]\<rparr>)))"
  using assms
  by (auto simp: Slice_new_def index_unless_None_def index_op_def range_new_def
      Integer_new_def Let_def)

lemma Slice_new_default_step: "Slice_new s t PNone st = Slice_new s t (PInt 1) st"
  by (simp add: Slice_new_def)

lemma Slice_new_zero_step: "Slice_new s t (PInt 0) st = Inl ValueError"
  by (simp add: Slice_new_def)

text \<open>An \<^verbatim>\<open>Integer\<close> comes out of three explicit integers only through a range of length 1.\<close>

lemma Slice_new_Integer:
  assumes "Slice_new (PInt a) (PInt b) (PInt k) st = Inr (r, st')"
    and "obj_cls (objs st' ! r) = Integer_cls"
  shows "k \<noteq> 0 \<and> range_len a b k = 1 \<and> args (objs st' ! r) = [PInt a]"
proof -
  have k: "k \<noteq> 0"
    using assms(1) by (auto simp: Slice_new_zero_step)
  show ?thesis
    using assms k
    by (auto simp: Slice_new_ints dest!: NDIndex_new_obj split: if_splits)
qed

section \<open>Slices that select nothing\<close>

lemma provably_empty_nonneg:
  assumes "0 < k" "0 \<le> b" "b \<le> a"
  shows "spec_provably_empty (Some a) (Some b) k"
  unfolding spec_provably_empty_def
proof
  fix n
  have "spec_clamp b 0 (int n) \<le> spec_clamp a 0 (int n)"
    using assms by (auto simp: spec_clamp_def)
  then have "range_len (spec_clamp a 0 (int n)) (spec_clamp b 0 (int n)) k = 0"
    using assms(1) by (simp add: range_len_eq_0)
  then show "spec_slice_positions n (Some a) (Some b) k = []"
    using assms by (simp add: spec_slice_positions_def spec_bound_def spec_range_empty)
qed

lemma provably_empty_same: "spec_provably_empty (Some a) (Some a) k"
  by (simp add: spec_provably_empty_def spec_slice_positions_def spec_bound_def
      spec_range_empty range_len_def)

section \<open>Slice to Integer\<close>

text \<open>
  C1, as stated, fails. The claim: whenever \<^verbatim>\<open>Slice(start, stop, step)\<close> on explicit
  integers returns \<^verbatim>\<open>Integer(v)\<close>, the raw slice selects, on an axis of every length
  \<open>n\<close>, exactly the one position that \<open>v\<close> selects. \<^verbatim>\<open>Slice(0, 1, 1)\<close> returns
  \<^verbatim>\<open>Integer(0)\<close>, and on the axis of length 0 the slice selects nothing while the index 0
  is out of bounds. \<^verbatim>\<open>Slice(-1, 0, 1)\<close> returns \<^verbatim>\<open>Integer(-1)\<close>, and on the axis of
  length 1 the slice selects nothing while the index -1 selects position 0.
\<close>

theorem Slice_to_Integer_unsound:
  "Slice_new (PInt 0) (PInt 1) (PInt 1) init
     = Inr (0, \<lparr>objs = [\<lparr>obj_cls = Integer_cls, args = [PInt 0]\<rparr>],
                coerced = [PInt 0, PInt 1, PInt 1, PInt 0]\<rparr>) \<and>
   spec_slice_positions 0 (Some 0) (Some 1) 1 = [] \<and>
   spec_integer_position 0 0 = None \<and>
   Slice_new (PInt (- 1)) (PInt 0) (PInt 1) init
     = Inr (0, \<lparr>objs = [\<lparr>obj_cls = Integer_cls, args = [PInt (- 1)]\<rparr>],
                coerced = [PInt (- 1), PInt 0, PInt 1, PInt (- 1)]\<rparr>) \<and>
   spec_slice_positions 1 (Some (- 1)) (Some 0) 1 = [] \<and>
   spec_integer_position 1 (- 1) = Some 0"
  by (simp add: Slice_new_ints range_len_def sys_maxsize_def NDIndex_new_def init_def
      spec_slice_positions_def spec_bound_def spec_clamp_def spec_range_def
      spec_integer_position_def)

text \<open>
  C1, amended. When \<^verbatim>\<open>Slice(start, stop, step)\<close> on explicit integers returns
  \<^verbatim>\<open>Integer(v)\<close> and \<open>start\<close> and \<open>stop\<close> are both nonnegative or both negative, then
  on every axis length \<open>n\<close> on which \<open>v\<close> is in bounds the raw slice selects exactly the
  position that \<open>v\<close> selects.
\<close>

theorem Slice_to_Integer_sound_same_sign:
  assumes "Slice_new (PInt a) (PInt b) (PInt k) st = Inr (r, st')"
    and "obj_cls (objs st' ! r) = Integer_cls"
    and "(0 \<le> a \<and> 0 \<le> b) \<or> (a < 0 \<and> b < 0)"
    and "Integer_raw st' r = PInt v"
    and "spec_integer_position n v = Some p"
  shows "spec_slice_positions n (Some a) (Some b) k = [p]"
proof -
  from Slice_new_Integer [OF assms(1,2)]
  have k: "k \<noteq> 0" and l: "range_len a b k = 1" and v: "v = a"
    using assms(4) by (auto simp: Integer_raw_def)
  have inb: "- int n \<le> a" "a < int n" and p: "p = (if 0 \<le> a then a else a + int n)"
    using assms(5) unfolding v by (auto simp: spec_integer_position_def split: if_splits)
  show ?thesis
  proof (cases "0 < k")
    case True
    then have ab: "a < b" "b \<le> a + k"
      using l by (auto simp: range_len_eq_1_pos)
    have "range_len (spec_bound (int n) (Some a) 0 0 (int n))
            (spec_bound (int n) (Some b) (int n) 0 (int n)) k = 1"
      and "spec_bound (int n) (Some a) 0 0 (int n) = p"
      using True ab inb assms(3) p
      by (auto simp: range_len_eq_1_pos spec_bound_def spec_clamp_def)
    then show ?thesis
      using True by (simp add: spec_slice_positions_def spec_range_single)
  next
    case False
    then have neg: "k < 0"
      using k by simp
    then have ab: "b < a" "a + k \<le> b"
      using l by (auto simp: range_len_eq_1_neg)
    have "range_len (spec_bound (int n) (Some a) (int n - 1) (- 1) (int n - 1))
            (spec_bound (int n) (Some b) (- 1) (- 1) (int n - 1)) k = 1"
      and "spec_bound (int n) (Some a) (int n - 1) (- 1) (int n - 1) = p"
      using neg ab inb assms(3) p
      by (auto simp: range_len_eq_1_neg spec_bound_def spec_clamp_def)
    then show ?thesis
      using neg by (simp add: spec_slice_positions_def spec_range_single)
  qed
qed

text \<open>
  The amended C1 at \<^verbatim>\<open>Slice(2, 3, 1)\<close> on an axis of length 5, and at
  \<^verbatim>\<open>Slice(-2, -4, -2)\<close> on the same axis.
\<close>

theorem Slice_to_Integer_sound_same_sign_witness:
  "Slice_new (PInt 2) (PInt 3) (PInt 1) init
     = Inr (0, \<lparr>objs = [\<lparr>obj_cls = Integer_cls, args = [PInt 2]\<rparr>],
                coerced = [PInt 2, PInt 3, PInt 1, PInt 2]\<rparr>) \<and>
   Integer_raw \<lparr>objs = [\<lparr>obj_cls = Integer_cls, args = [PInt 2]\<rparr>],
                coerced = [PInt 2, PInt 3, PInt 1, PInt 2]\<rparr> 0 = PInt 2 \<and>
   spec_integer_position 5 2 = Some 2 \<and>
   spec_slice_positions 5 (Some 2) (Some 3) 1 = [2] \<and>
   Slice_new (PInt (- 2)) (PInt (- 4)) (PInt (- 2)) init
     = Inr (0, \<lparr>objs = [\<lparr>obj_cls = Integer_cls, args = [PInt (- 2)]\<rparr>],
                coerced = [PInt (- 2), PInt (- 4), PInt (- 2), PInt (- 2)]\<rparr>) \<and>
   Integer_raw \<lparr>objs = [\<lparr>obj_cls = Integer_cls, args = [PInt (- 2)]\<rparr>],
                coerced = [PInt (- 2), PInt (- 4), PInt (- 2), PInt (- 2)]\<rparr> 0 = PInt (- 2) \<and>
   spec_integer_position 5 (- 2) = Some 3 \<and>
   spec_slice_positions 5 (Some (- 2)) (Some (- 4)) (- 2) = [3]"
proof -
  have c1: "Slice_new (PInt 2) (PInt 3) (PInt 1) init
              = Inr (0, \<lparr>objs = [\<lparr>obj_cls = Integer_cls, args = [PInt 2]\<rparr>],
                         coerced = [PInt 2, PInt 3, PInt 1, PInt 2]\<rparr>)"
    by (simp add: Slice_new_ints range_len_def sys_maxsize_def NDIndex_new_def init_def)
  have r1: "Integer_raw \<lparr>objs = [\<lparr>obj_cls = Integer_cls, args = [PInt 2]\<rparr>],
                coerced = [PInt 2, PInt 3, PInt 1, PInt 2]\<rparr> 0 = PInt 2"
    by (simp add: Integer_raw_def)
  have p1: "spec_integer_position 5 2 = Some 2"
    by (simp add: spec_integer_position_def)
  have c2: "Slice_new (PInt (- 2)) (PInt (- 4)) (PInt (- 2)) init
              = Inr (0, \<lparr>objs = [\<lparr>obj_cls = Integer_cls, args = [PInt (- 2)]\<rparr>],
                         coerced = [PInt (- 2), PInt (- 4), PInt (- 2), PInt (- 2)]\<rparr>)"
    by (simp add: Slice_new_ints range_len_def sys_maxsize_def NDIndex_new_def init_def)
  have r2: "Integer_raw \<lparr>objs = [\<lparr>obj_cls = Integer_cls, args = [PInt (- 2)]\<rparr>],
                coerced = [PInt (- 2), PInt (- 4), PInt (- 2), PInt (- 2)]\<rparr> 0 = PInt (- 2)"
    by (simp add: Integer_raw_def)
  have p2: "spec_integer_position 5 (- 2) = Some 3"
    by (simp add: spec_integer_position_def)
  have "spec_slice_positions 5 (Some 2) (Some 3) 1 = [2]"
    using Slice_to_Integer_sound_same_sign [OF c1 _ _ r1 p1] by simp
  moreover have "spec_slice_positions 5 (Some (- 2)) (Some (- 4)) (- 2) = [3]"
    using Slice_to_Integer_sound_same_sign [OF c2 _ _ r2 p2] by simp
  ultimately show ?thesis
    using c1 r1 p1 c2 r2 p2 by simp
qed

section \<open>The canonical empty slice\<close>

text \<open>
  C2, as stated, fails. The claim: every explicit triple that selects nothing on an axis of
  any length is constructed as the \<^verbatim>\<open>Slice\<close> with \<^verbatim>\<open>args\<close> \<open>(0, 0, 1)\<close>.
  \<^verbatim>\<open>slice(5, 3, 1)\<close> selects nothing on any axis, and \<^verbatim>\<open>Slice(5, 3, 1)\<close> keeps the
  arguments \<open>(5, 3, 1)\<close>.
\<close>

theorem canonical_empty_not_universal:
  "spec_provably_empty (Some 5) (Some 3) 1 \<and>
   Slice_new (PInt 5) (PInt 3) (PInt 1) init
     = Inr (0, \<lparr>objs = [\<lparr>obj_cls = Slice_cls, args = [PInt 5, PInt 3, PInt 1]\<rparr>],
                coerced = [PInt 5, PInt 3, PInt 1]\<rparr>)"
  by (simp add: provably_empty_nonneg Slice_new_ints range_len_def sys_maxsize_def
      NDIndex_new_def init_def)

text \<open>
  C2, amended. A \<^verbatim>\<open>Slice\<close> constructed from an explicit triple that selects nothing on
  an axis of any length has the \<^verbatim>\<open>args\<close> \<open>(0, 0, 1)\<close> when \<open>start = stop\<close>, and keeps
  \<open>(start, stop, step)\<close> otherwise.
\<close>

theorem canonical_empty_zero_width_only:
  assumes "spec_provably_empty (Some a) (Some b) k"
    and "Slice_new (PInt a) (PInt b) (PInt k) st = Inr (r, st')"
    and "obj_cls (objs st' ! r) = Slice_cls"
  shows "args (objs st' ! r)
           = (if a = b then [PInt 0, PInt 0, PInt 1] else [PInt a, PInt b, PInt k])"
proof -
  have k: "k \<noteq> 0"
    using assms(2) by (auto simp: Slice_new_zero_step)
  show ?thesis
    using assms(2,3) k
    by (auto simp: Slice_new_ints range_len_eq_0 dest!: NDIndex_new_obj split: if_splits)
qed

text \<open>The amended C2 at \<^verbatim>\<open>Slice(5, 3, 1)\<close>, which is kept, and at \<^verbatim>\<open>Slice(4, 4, -2)\<close>.\<close>

theorem canonical_empty_zero_width_only_witness:
  "spec_provably_empty (Some 5) (Some 3) 1 \<and>
   Slice_new (PInt 5) (PInt 3) (PInt 1) init
     = Inr (0, \<lparr>objs = [\<lparr>obj_cls = Slice_cls, args = [PInt 5, PInt 3, PInt 1]\<rparr>],
                coerced = [PInt 5, PInt 3, PInt 1]\<rparr>) \<and>
   args (objs \<lparr>objs = [\<lparr>obj_cls = Slice_cls, args = [PInt 5, PInt 3, PInt 1]\<rparr>],
               coerced = [PInt 5, PInt 3, PInt 1]\<rparr> ! 0)
     = [PInt 5, PInt 3, PInt 1] \<and>
   spec_provably_empty (Some 4) (Some 4) (- 2) \<and>
   Slice_new (PInt 4) (PInt 4) (PInt (- 2)) init
     = Inr (0, \<lparr>objs = [\<lparr>obj_cls = Slice_cls, args = [PInt 0, PInt 0, PInt 1]\<rparr>],
                coerced = [PInt 4, PInt 4, PInt (- 2)]\<rparr>) \<and>
   args (objs \<lparr>objs = [\<lparr>obj_cls = Slice_cls, args = [PInt 0, PInt 0, PInt 1]\<rparr>],
               coerced = [PInt 4, PInt 4, PInt (- 2)]\<rparr> ! 0)
     = [PInt 0, PInt 0, PInt 1]"
proof -
  have e1: "spec_provably_empty (Some 5) (Some 3) 1"
    by (simp add: provably_empty_nonneg)
  have c1: "Slice_new (PInt 5) (PInt 3) (PInt 1) init
              = Inr (0, \<lparr>objs = [\<lparr>obj_cls = Slice_cls, args = [PInt 5, PInt 3, PInt 1]\<rparr>],
                         coerced = [PInt 5, PInt 3, PInt 1]\<rparr>)"
    by (simp add: Slice_new_ints range_len_def sys_maxsize_def NDIndex_new_def init_def)
  have e2: "spec_provably_empty (Some 4) (Some 4) (- 2)"
    by (rule provably_empty_same)
  have c2: "Slice_new (PInt 4) (PInt 4) (PInt (- 2)) init
              = Inr (0, \<lparr>objs = [\<lparr>obj_cls = Slice_cls, args = [PInt 0, PInt 0, PInt 1]\<rparr>],
                         coerced = [PInt 4, PInt 4, PInt (- 2)]\<rparr>)"
    by (simp add: Slice_new_ints range_len_def sys_maxsize_def NDIndex_new_def init_def)
  show ?thesis
    using canonical_empty_zero_width_only [OF e1 c1]
      canonical_empty_zero_width_only [OF e2 c2] e1 c1 e2 c2
    by simp
qed

text \<open>
  C3. For explicit integers \<open>start\<close> and \<open>stop\<close> and a step that is absent (then 1) or
  a nonzero integer: when the range from \<open>start\<close> to \<open>stop\<close> by \<open>step\<close> has length 0,
  the constructor returns a \<^verbatim>\<open>Slice\<close> whose \<^verbatim>\<open>args\<close> are \<open>(0, 0, 1)\<close> if the sign of
  \<open>stop - start\<close> agrees with the sign of \<open>step\<close> (a difference of zero agreeing with
  both signs), and \<open>(start, stop, step)\<close> unchanged if the signs disagree.
\<close>

theorem degenerate_empty_rule:
  assumes "p = PNone \<and> k = 1 \<or> p = PInt k \<and> k \<noteq> 0"
    and "range_len a b k = 0"
  shows "Slice_new (PInt a) (PInt b) p st =
           Inr (NDIndex_new Slice_cls
                  (if spec_sign_agrees a b k then [PInt 0, PInt 0, PInt 1]
                   else [PInt a, PInt b, PInt k])
                  (st\<lparr>coerced := coerced st @ [PInt a, PInt b, PInt k]\<rparr>))"
proof -
  have k: "k \<noteq> 0"
    and p: "Slice_new (PInt a) (PInt b) p st = Slice_new (PInt a) (PInt b) (PInt k) st"
    using assms(1) by (auto simp: Slice_new_default_step)
  show ?thesis
    unfolding p using assms(2) sys_maxsize_pos
    by (auto simp: Slice_new_ints [OF k] spec_sign_agrees_def)
qed

text \<open>
  C3 at \<^verbatim>\<open>Slice(3, 3)\<close>, where the signs agree, and at \<^verbatim>\<open>Slice(5, 3, 2)\<close>, where they
  do not.
\<close>

theorem degenerate_empty_rule_witness:
  "range_len 3 3 1 = 0 \<and> spec_sign_agrees 3 3 1 \<and>
   Slice_new (PInt 3) (PInt 3) PNone init
     = Inr (0, \<lparr>objs = [\<lparr>obj_cls = Slice_cls, args = [PInt 0, PInt 0, PInt 1]\<rparr>],
                coerced = [PInt 3, PInt 3, PInt 1]\<rparr>) \<and>
   range_len 5 3 2 = 0 \<and> \<not> spec_sign_agrees 5 3 2 \<and>
   Slice_new (PInt 5) (PInt 3) (PInt 2) init
     = Inr (0, \<lparr>objs = [\<lparr>obj_cls = Slice_cls, args = [PInt 5, PInt 3, PInt 2]\<rparr>],
                coerced = [PInt 5, PInt 3, PInt 2]\<rparr>)"
proof -
  have l1: "range_len 3 3 1 = 0" and l2: "range_len 5 3 2 = 0"
    by (simp_all add: range_len_def)
  have s1: "spec_sign_agrees 3 3 1" and s2: "\<not> spec_sign_agrees 5 3 2"
    by (simp_all add: spec_sign_agrees_def)
  show ?thesis
    using degenerate_empty_rule [of PNone 1 3 3 init]
      degenerate_empty_rule [of "PInt 2" 2 5 3 init] l1 l2 s1 s2
    by (simp add: NDIndex_new_def init_def)
qed

text \<open>
  C10. For explicit integers with \<open>start = stop\<close> and every nonzero step, of either sign,
  \<^verbatim>\<open>Slice(start, stop, step)\<close> constructs a \<^verbatim>\<open>Slice\<close> object whose \<^verbatim>\<open>args\<close> are
  \<open>(0, 0, 1)\<close>.
\<close>

theorem zero_width_canonical:
  assumes "k \<noteq> 0"
  shows "Slice_new (PInt a) (PInt a) (PInt k) st
           = Inr (NDIndex_new Slice_cls [PInt 0, PInt 0, PInt 1]
                    (st\<lparr>coerced := coerced st @ [PInt a, PInt a, PInt k]\<rparr>))"
  using assms sys_maxsize_pos by (auto simp: Slice_new_ints)

text \<open>C10 at \<^verbatim>\<open>Slice(7, 7, -2)\<close>.\<close>

theorem zero_width_canonical_witness:
  "(- 2 :: int) \<noteq> 0 \<and>
   Slice_new (PInt 7) (PInt 7) (PInt (- 2)) init
     = Inr (0, \<lparr>objs = [\<lparr>obj_cls = Slice_cls, args = [PInt 0, PInt 0, PInt 1]\<rparr>],
                coerced = [PInt 7, PInt 7, PInt (- 2)]\<rparr>)"
  using zero_width_canonical [of "- 2" 7 init] by (simp add: NDIndex_new_def init_def)

section \<open>Arguments of the constructors\<close>

text \<open>
  C4 does not hold of the code. The claim: \<^verbatim>\<open>Slice(i)\<close> constructs the same value as
  \<^verbatim>\<open>Slice(None, i, 1)\<close>. The single positional argument is bound to the parameter
  \<^verbatim>\<open>start\<close>: \<^verbatim>\<open>Slice(1)\<close> has the \<^verbatim>\<open>args\<close> \<open>(1, None, 1)\<close>, while
  \<^verbatim>\<open>Slice(None, 1, 1)\<close> has \<open>(None, 1, 1)\<close>.
\<close>

theorem Slice_one_argument_is_start:
  "Slice_new1 (PInt 1) init
     = Inr (0, \<lparr>objs = [\<lparr>obj_cls = Slice_cls, args = [PInt 1, PNone, PInt 1]\<rparr>],
                coerced = [PInt 1, PInt 1]\<rparr>) \<and>
   Slice_new PNone (PInt 1) (PInt 1) init
     = Inr (0, \<lparr>objs = [\<lparr>obj_cls = Slice_cls, args = [PNone, PInt 1, PInt 1]\<rparr>],
                coerced = [PInt 1, PInt 1]\<rparr>)"
  by (simp add: Slice_new1_def Slice_new_def index_unless_None_def index_op_def
      NDIndex_new_def init_def Let_def)

text \<open>
  C5 does not hold of the code. The claim: an absent step defaults to 1, a step equal to 0
  fails with ValueError (BadStep), and every \<^verbatim>\<open>Slice\<close> that is constructed has a nonzero
  integer step. The constructor tests \<^verbatim>\<open>step == 0\<close> on the step as it was passed and
  coerces it afterwards. For a step \<^verbatim>\<open>W()\<close> whose \<^verbatim>\<open>__index__\<close> returns 0 and which does
  not compare equal to 0, \<^verbatim>\<open>Slice(None, 5, W())\<close> passes the test and returns a
  \<^verbatim>\<open>Slice\<close> whose \<^verbatim>\<open>args\<close> are \<open>(None, 5, 0)\<close>.
\<close>

theorem zero_index_step_accepted:
  "Slice_new PNone (PInt 5) (PObj (Some 0) False) init
     = Inr (0, \<lparr>objs = [\<lparr>obj_cls = Slice_cls, args = [PNone, PInt 5, PInt 0]\<rparr>],
                coerced = [PInt 5, PObj (Some 0) False]\<rparr>)"
  by (simp add: Slice_new_def index_unless_None_def index_op_def NDIndex_new_def init_def
      Let_def)

text \<open>
  C6. \<^verbatim>\<open>Integer(x)\<close> fails with TypeError (BadIndex) when \<open>x\<close> is not
  integer-convertible. When \<open>x\<close> is integer-convertible the construction succeeds, the
  result is an \<^verbatim>\<open>Integer\<close> object whose \<^verbatim>\<open>raw\<close> is the integer that the coercion of
  \<open>x\<close> returned, and the construction has added exactly one call of
  \<^verbatim>\<open>operator.index\<close>, the one on \<open>x\<close>, to the calls made before.
\<close>

theorem Integer_new_coerces_once:
  "(index_value x = None \<longrightarrow> Integer_new x st = Inl TypeError) \<and>
   (\<forall>i. index_value x = Some i \<longrightarrow>
      (\<exists>r st'. Integer_new x st = Inr (r, st') \<and>
         obj_cls (objs st' ! r) = Integer_cls \<and>
         Integer_raw st' r = PInt i \<and>
         coerced st' = coerced st @ [x]))"
  by (auto simp: Integer_new_def Integer_raw_def index_op_def NDIndex_new_def)

text \<open>
  C6 at an integer-convertible object with index 7, whose \<^verbatim>\<open>raw\<close> is the integer 7 and
  not the object, and at the float \<^verbatim>\<open>0.0\<close>.
\<close>

theorem Integer_new_coerces_once_witness:
  "index_value (PObj (Some 7) False) = Some 7 \<and>
   (\<exists>r st'. Integer_new (PObj (Some 7) False) init = Inr (r, st') \<and>
      obj_cls (objs st' ! r) = Integer_cls \<and>
      Integer_raw st' r = PInt 7 \<and>
      coerced st' = [PObj (Some 7) False]) \<and>
   index_value (PObj None True) = None \<and>
   Integer_new (PObj None True) init = Inl TypeError"
  using Integer_new_coerces_once [of "PObj (Some 7) False" init]
    Integer_new_coerces_once [of "PObj None True" init]
  by (simp add: init_def)

section \<open>Equality, idempotence and hashing\<close>

text \<open>
  C7 does not hold of the code. The claim: two index values compare equal if and only if
  they have the same variant and equal fields, so two constructions of
  \<^verbatim>\<open>Slice(0, 5, 2)\<close> are equal. The two constructions return two objects of class
  \<^verbatim>\<open>Slice\<close> with the same \<^verbatim>\<open>args\<close>, and \<^verbatim>\<open>==\<close>, inherited from \<^verbatim>\<open>object\<close>, is
  false of them.
\<close>

theorem equality_is_identity:
  "Slice_new (PInt 0) (PInt 5) (PInt 2) init
     = Inr (0, \<lparr>objs = [\<lparr>obj_cls = Slice_cls, args = [PInt 0, PInt 5, PInt 2]\<rparr>],
                coerced = [PInt 0, PInt 5, PInt 2]\<rparr>) \<and>
   Slice_new (PInt 0) (PInt 5) (PInt 2)
       \<lparr>objs = [\<lparr>obj_cls = Slice_cls, args = [PInt 0, PInt 5, PInt 2]\<rparr>],
        coerced = [PInt 0, PInt 5, PInt 2]\<rparr>
     = Inr (1, \<lparr>objs = [\<lparr>obj_cls = Slice_cls, args = [PInt 0, PInt 5, PInt 2]\<rparr>,
                        \<lparr>obj_cls = Slice_cls, args = [PInt 0, PInt 5, PInt 2]\<rparr>],
                coerced = [PInt 0, PInt 5, PInt 2, PInt 0, PInt 5, PInt 2]\<rparr>) \<and>
   NDIndex_eq 0 1 = False"
  by (simp add: Slice_new_ints range_len_def sys_maxsize_def NDIndex_new_def NDIndex_eq_def
      init_def)

text \<open>
  C8 does not hold of the code. The claim: for every \<^verbatim>\<open>Slice\<close> \<open>S\<close> that the
  constructor returns, the constructor called on \<^verbatim>\<open>S.args[0]\<close>, \<^verbatim>\<open>S.args[1]\<close>,
  \<^verbatim>\<open>S.args[2]\<close> returns a \<^verbatim>\<open>Slice\<close> with the \<^verbatim>\<open>args\<close> of \<open>S\<close>. The \<^verbatim>\<open>Slice\<close>
  that \<^verbatim>\<open>Slice(None, 5, W())\<close> returns, for a step \<^verbatim>\<open>W()\<close> whose \<^verbatim>\<open>__index__\<close> returns
  0 and which does not compare equal to 0, has the \<^verbatim>\<open>args\<close> \<open>(None, 5, 0)\<close>, and the
  constructor called on them raises ValueError.
\<close>

theorem zero_step_Slice_not_reconstructible:
  "Slice_new PNone (PInt 5) (PObj (Some 0) False) init
     = Inr (0, \<lparr>objs = [\<lparr>obj_cls = Slice_cls, args = [PNone, PInt 5, PInt 0]\<rparr>],
                coerced = [PInt 5, PObj (Some 0) False]\<rparr>) \<and>
   Slice_new
       (args (objs \<lparr>objs = [\<lparr>obj_cls = Slice_cls, args = [PNone, PInt 5, PInt 0]\<rparr>],
                    coerced = [PInt 5, PObj (Some 0) False]\<rparr> ! 0) ! 0)
       (args (objs \<lparr>objs = [\<lparr>obj_cls = Slice_cls, args = [PNone, PInt 5, PInt 0]\<rparr>],
                    coerced = [PInt 5, PObj (Some 0) False]\<rparr> ! 0) ! 1)
       (args (objs \<lparr>objs = [\<lparr>obj_cls = Slice_cls, args = [PNone, PInt 5, PInt 0]\<rparr>],
                    coerced = [PInt 5, PObj (Some 0) False]\<rparr> ! 0) ! 2)
       \<lparr>objs = [\<lparr>obj_cls = Slice_cls, args = [PNone, PInt 5, PInt 0]\<rparr>],
        coerced = [PInt 5, PObj (Some 0) False]\<rparr>
     = Inl ValueError"
  by (simp add: Slice_new_def index_unless_None_def index_op_def NDIndex_new_def init_def
      Let_def)

text \<open>
  C9. The hash of an index value is the hash of its \<^verbatim>\<open>args\<close> tuple, so two index values
  with equal \<^verbatim>\<open>args\<close> have the same hash, whatever their classes are.
\<close>

theorem hash_depends_on_args:
  "NDIndex_hash H st v = H (args (objs st ! v)) \<and>
   (args (objs st ! v) = args (objs st ! w) \<longrightarrow> NDIndex_hash H st v = NDIndex_hash H st w)"
  by (simp add: NDIndex_hash_def)

text \<open>
  C9 at two objects of different classes with the \<^verbatim>\<open>args\<close> \<open>(4,)\<close>, with the length of
  the tuple standing in for the hash function.
\<close>

theorem hash_depends_on_args_witness:
  "args (objs \<lparr>objs = [\<lparr>obj_cls = Integer_cls, args = [PInt 4]\<rparr>,
                       \<lparr>obj_cls = Slice_cls, args = [PInt 4]\<rparr>], coerced = []\<rparr> ! 0)
     = args (objs \<lparr>objs = [\<lparr>obj_cls = Integer_cls, args = [PInt 4]\<rparr>,
                           \<lparr>obj_cls = Slice_cls, args = [PInt 4]\<rparr>], coerced = []\<rparr> ! 1) \<and>
   NDIndex_hash (\<lambda>as. int (length as))
     \<lparr>objs = [\<lparr>obj_cls = Integer_cls, args = [PInt 4]\<rparr>,
              \<lparr>obj_cls = Slice_cls, args = [PInt 4]\<rparr>], coerced = []\<rparr> 0
     = NDIndex_hash (\<lambda>as. int (length as))
         \<lparr>objs = [\<lparr>obj_cls = Integer_cls, args = [PInt 4]\<rparr>,
                  \<lparr>obj_cls = Slice_cls, args = [PInt 4]\<rparr>], coerced = []\<rparr> 1"
  using hash_depends_on_args [of "\<lambda>as. int (length as)"
      "\<lparr>objs = [\<lparr>obj_cls = Integer_cls, args = [PInt 4]\<rparr>,
               \<lparr>obj_cls = Slice_cls, args = [PInt 4]\<rparr>], coerced = []\<rparr>" 0 1]
  by simp

end
